theory Spec2Isabelle
  imports Complex_Main "HOL-Library.AList"
begin

section \<open>Multi-flight recapture method (revpy/mfrm.py)\<close>

text \<open>
  The module estimates unconstrained demand, spill and recapture from observed bookings.
  Its numbers are float64. They are modelled as reals, and the arithmetic as exact, with
  the places written out where float64 takes another branch than the reals would:
  \<^item> a division by zero raises \<open>ZeroDivisionError\<close> between Python numbers and gives
    \<open>inf\<close> or \<open>nan\<close> (and a warning) as soon as one operand is a \<open>numpy.float64\<close>;
  \<^item> the solver refuses an array that holds \<open>inf\<close> or \<open>nan\<close>;
  \<^item> \<open>np.exp\<close> overflows to \<open>inf\<close> and underflows to \<open>0.0\<close>, and a sum or product
    beyond the largest float64 is \<open>inf\<close>;
  \<^item> \<open>1 - avail\<close> is \<open>1.0\<close> for an availability below half a unit in the last place
    of 1.
  Rounding is not modelled otherwise, so an equation proved here holds of the code up to
  rounding.
\<close>

subsection \<open>Outcomes, number kinds and dictionaries\<close>

text \<open>
  Modelled from the spec: the module \<open>revpy.exceptions\<close> is not among the sources; its
  \<open>InvalidInputParameters\<close> is the invalid-input error of the spec, "raised when a product
  has non-zero observed demand but zero availability", and a constructor here. Of the other
  exceptions, \<open>LinAlgError\<close> and \<open>ValueError\<close> are what the linear solver raises on a
  singular matrix and on arguments that are ill-shaped or not finite,
  \<open>ZeroDivisionError\<close> and \<open>KeyError\<close> are Python's own.
\<close>

datatype exception =
  InvalidInputParameters | LinAlgError | ValueError | ZeroDivisionError | KeyError

text \<open>
  A call that does not end with real numbers either raises, or goes on with \<open>inf\<close> or
  \<open>nan\<close> and returns them: \<open>NonFinite\<close> is no exception, it says that what the call
  returns holds a value that is not a number of this model.
\<close>

datatype failure = Raise exception | NonFinite

text \<open>
  Whether the probabilities handed to a function are Python floats (literals) or
  \<open>numpy.float64\<close> numbers (what \<open>selection_probs\<close> and the solver return) decides what
  a division by zero does. The kind is an argument of the model.
\<close>

datatype floats = PyFloat | NumpyFloat

definition divide_by :: "floats \<Rightarrow> real \<Rightarrow> real \<Rightarrow> failure + real" where
  "divide_by kind a b =
     (if b = 0 then
        (case kind of PyFloat \<Rightarrow> Inl (Raise ZeroDivisionError) | NumpyFloat \<Rightarrow> Inl NonFinite)
      else Inr (a / b))"

text \<open>
  A Python \<open>dict\<close> is an association list in insertion order. A list stands for a
  dictionary when its keys are distinct; \<open>d.get(k, v)\<close>, \<open>d[k]\<close>, \<open>d.keys()\<close>
  and \<open>d.values()\<close> are as follows, and \<open>d[k] = v\<close> is \<^const>\<open>AList.update\<close>.
\<close>

type_synonym ('k, 'v) dict = "('k \<times> 'v) list"

definition dict_get :: "('k, 'v) dict \<Rightarrow> 'k \<Rightarrow> 'v \<Rightarrow> 'v" where
  "dict_get d k dflt = (case map_of d k of None \<Rightarrow> dflt | Some v \<Rightarrow> v)"

definition dict_item :: "('k, 'v) dict \<Rightarrow> 'k \<Rightarrow> failure + 'v" where
  "dict_item d k = (case map_of d k of None \<Rightarrow> Inl (Raise KeyError) | Some v \<Rightarrow> Inr v)"

definition dict_keys :: "('k, 'v) dict \<Rightarrow> 'k list" where
  "dict_keys d = map fst d"

definition dict_values :: "('k, 'v) dict \<Rightarrow> 'v list" where
  "dict_values d = map snd d"

text \<open>A comprehension whose body may fail: left to right, the first failure ends it.\<close>

fun map_err :: "('a \<Rightarrow> failure + 'b) \<Rightarrow> 'a list \<Rightarrow> failure + 'b list" where
  "map_err f [] = Inr []"
| "map_err f (x # xs) =
     (case f x of
        Inl e \<Rightarrow> Inl e
      | Inr y \<Rightarrow> (case map_err f xs of Inl e \<Rightarrow> Inl e | Inr ys \<Rightarrow> Inr (y # ys)))"

text \<open>The per-product estimate \<open>{'demand': _, 'spill': _, 'recapture': _}\<close>.\<close>

record estimate =
  demand :: real
  spill :: real
  recapture :: real

subsection \<open>Float64 where it decides the branch\<close>

text \<open>
  The largest float64 is \<open>(2 - 2\<^sup>-\<^sup>5\<^sup>2) * 2\<^sup>1\<^sup>0\<^sup>2\<^sup>3\<close>; a numpy result beyond it is
  \<open>inf\<close>.
\<close>

definition max_float :: real where
  "max_float = 2 ^ 1024 - 2 ^ 971"

definition np_float :: "real \<Rightarrow> failure + real" where
  "np_float x = (if \<bar>x\<bar> \<le> max_float then Inr x else Inl NonFinite)"

text \<open>
  \<open>np.exp\<close> is numpy's library function: \<open>inf\<close> above \<open>709.782712893384\<close> (the
  logarithm of the largest float64), \<open>0.0\<close> below \<open>-745.1332191019411\<close> (the logarithm
  of half the smallest float64), and the exponential in between.
\<close>

definition np_exp :: "real \<Rightarrow> failure + real" where
  "np_exp u =
     (if 709782712893384 / 10 ^ 12 < u then Inl NonFinite
      else if u < - (7451332191019411 / 10 ^ 13) then Inr 0
      else Inr (exp u))"

text \<open>
  The floats next to \<open>1.0\<close> are \<open>1 - 2\<^sup>-\<^sup>5\<^sup>3\<close> and \<open>1 + 2\<^sup>-\<^sup>5\<^sup>2\<close>, and a tie is rounded
  to \<open>1.0\<close>. So a difference \<open>1 - a\<close> is \<open>1.0\<close> to the code for every \<open>a\<close> from
  \<open>-2\<^sup>-\<^sup>5\<^sup>3\<close> to \<open>2\<^sup>-\<^sup>5\<^sup>4\<close>, and not only for \<open>a = 0\<close>.
\<close>

definition rounds_to_one :: "real \<Rightarrow> bool" where
  "rounds_to_one x \<longleftrightarrow> 1 - 1 / 2 ^ 54 \<le> x \<and> x \<le> 1 + 1 / 2 ^ 53"

definition fl_near_one :: "real \<Rightarrow> real" where
  "fl_near_one x = (if rounds_to_one x then 1 else x)"

subsection \<open>The dense linear solver\<close>

text \<open>
  Modelled from the spec: \<open>scipy.linalg.solve\<close> is an external collaborator, "a dense
  linear-equation solver capable of solving small (2x2, 3x3) real-valued systems
  \<open>Ax = B\<close> and signaling a failure (e.g., singular-matrix condition)". In exact
  arithmetic it is Cramer's rule: the determinant is expanded along the first row, a
  matrix that is not square (or a right-hand side of another length) is a \<open>ValueError\<close>,
  a zero determinant is a \<open>LinAlgError\<close>.
\<close>

definition del_col :: "nat \<Rightarrow> real list \<Rightarrow> real list" where
  "del_col j r = take j r @ drop (Suc j) r"

fun det :: "real list list \<Rightarrow> real" where
  "det [] = 1"
| "det (r # rs) =
     (\<Sum>j\<leftarrow>[0..<length r]. (- 1) ^ j * (r ! j) * det (map (del_col j) rs))"

definition replace_col :: "nat \<Rightarrow> real list \<Rightarrow> real list list \<Rightarrow> real list list" where
  "replace_col i B A = map (\<lambda>(r, b). r[i := b]) (zip A B)"

definition solve :: "real list list \<Rightarrow> real list \<Rightarrow> failure + real list" where
  "solve A B =
     (if \<not> list_all (\<lambda>r. length r = length A) A \<or> length B \<noteq> length A
      then Inl (Raise ValueError)
      else if det A = 0 then Inl (Raise LinAlgError)
      else Inr (map (\<lambda>i. det (replace_col i B A) / det A) [0..<length A]))"

subsection \<open>Mass balance equations\<close>

text \<open>
  \<open>demand_mass_balance_h\<close> (lines 235-258): the host-level system
  \<open>A = [[1, -1, 1], [-close_prob, 1, 0], [0, -recapture_rate, 1]]\<close>,
  \<open>B = [odemand, 0, 0]\<close>, whose solution is unpacked into three values.
\<close>

definition demand_mass_balance_h :: "real \<Rightarrow> real \<Rightarrow> real \<Rightarrow> failure + real \<times> real \<times> real" where
  "demand_mass_balance_h odemand close_prob recapture_rate =
     (let A = [[1, - 1, 1], [- close_prob, 1, 0], [0, - recapture_rate, 1]];
          B = [odemand, 0, 0]
      in case solve A B of
           Inl e \<Rightarrow> Inl e
         | Inr x \<Rightarrow>
             (case x of
                [d, s, r] \<Rightarrow> Inr (d, s, r)
              | _ \<Rightarrow> Inl (Raise ValueError)))"

text \<open>
  \<open>demand_mass_balance_c\<close> (lines 200-232): nothing is estimated for a class without
  observed demand. Otherwise the host recapture is apportioned pro rata, which divides by
  the host's observed demand, and the system \<open>A = [[1, -1], [-k, 1]]\<close>,
  \<open>B = [class_odemand - recapture, 0]\<close> with \<open>k = 1 - avail\<close> is solved. With a host
  demand of zero Python's division raises; numpy's gives a right-hand side that is not
  finite, which the solver refuses with a \<open>ValueError\<close> before it looks at the matrix.
  The kind is that of the operands of the division.
\<close>

definition demand_mass_balance_c ::
  "floats \<Rightarrow> real \<Rightarrow> real \<Rightarrow> real \<Rightarrow> real \<Rightarrow> failure + real \<times> real \<times> real" where
  "demand_mass_balance_c kind host_odemand class_odemand avail host_recapture =
     (if class_odemand \<noteq> 0 then
        if host_odemand = 0 then
          (case kind of
             PyFloat \<Rightarrow> Inl (Raise ZeroDivisionError)
           | NumpyFloat \<Rightarrow> Inl (Raise ValueError))
        else
          let r = host_recapture * class_odemand / host_odemand;
              k = fl_near_one (1 - avail);
              A = [[1, - 1], [- k, 1]];
              B = [class_odemand - r, 0]
          in case solve A B of
               Inl e \<Rightarrow> Inl e
             | Inr x \<Rightarrow>
                 (case x of
                    [d, s] \<Rightarrow> Inr (d, s, r)
                  | _ \<Rightarrow> Inl (Raise ValueError))
      else Inr (0, 0, 0))"

subsection \<open>Host level\<close>

text \<open>
  \<open>estimate_host_level\<close> (lines 20-59). The two quotients divide by
  \<open>prob_market_open\<close> and by \<open>1 - nofly_prob\<close>. On a zero divisor Python's division
  raises at once; numpy's goes on with \<open>inf\<close> or \<open>nan\<close> into the matrix of
  \<open>demand_mass_balance_h\<close>, which the solver refuses with a \<open>ValueError\<close>.
\<close>

definition estimate_host_level ::
  "floats \<Rightarrow> ('k, real) dict \<Rightarrow> ('k, real) dict \<Rightarrow> ('k, real) dict \<Rightarrow> real
     \<Rightarrow> failure + real \<times> real \<times> real" where
  "estimate_host_level kind observed availability probs nofly_prob =
     (if probs \<noteq> [] then
        let prob_market_open =
              nofly_prob + sum_list (map (\<lambda>(p, pr). pr * dict_get availability p 0) probs)
        in if prob_market_open = 0 \<or> 1 - nofly_prob = 0 then
             (case kind of
                PyFloat \<Rightarrow> Inl (Raise ZeroDivisionError)
              | NumpyFloat \<Rightarrow> Inl (Raise ValueError))
           else
             let recapture_rate = (prob_market_open - nofly_prob) / prob_market_open;
                 prob_host_closed = (1 - prob_market_open) / (1 - nofly_prob);
                 total_odemand = sum_list (dict_values observed)
             in demand_mass_balance_h total_odemand prob_host_closed recapture_rate
      else Inr (0, 0, 0))"

subsection \<open>Calibration\<close>

text \<open>
  \<open>calibrate_no_booking\<close> (lines 120-168), on values: the deep copy makes the result a
  dictionary of its own, which the model's value semantics gives for free (the function on
  objects, with the copy spelled out, is \<open>calibrate_no_booking_store\<close> below). The three
  comprehensions are kept apart, as in the source: the keys without observed bookings,
  their weights (\<open>probs[p]\<close> raises on a missing key), and the normalised weights, whose
  division is evaluated once per item and so only when there is an item. A zero sum of
  weights raises between Python floats; with numpy weights the quotients are \<open>inf\<close> or
  \<open>nan\<close>, the loop writes them, and the call returns them. The final loop writes
  \<open>'spill'\<close> and \<open>'demand'\<close> of the entry and leaves \<open>'recapture'\<close> alone.
\<close>

definition calibrate_no_booking ::
  "floats \<Rightarrow> ('k, estimate) dict \<Rightarrow> ('k, real) dict \<Rightarrow> ('k, real) dict \<Rightarrow> ('k, real) dict
     \<Rightarrow> real \<Rightarrow> failure + ('k, estimate) dict" where
  "calibrate_no_booking kind estimates observed availability probs host_spill =
     (let class_spill = sum_list (map spill (dict_values estimates));
          unaccounted_spill = host_spill - class_spill
      in if unaccounted_spill > 0 then
           let observed' = filter (\<lambda>k. dict_get observed k 0 = 0) (dict_keys estimates)
           in case map_err (\<lambda>p. case dict_item probs p of
                                   Inl e \<Rightarrow> Inl e
                                 | Inr pr \<Rightarrow> Inr (p, pr * (1 - dict_get availability p 0)))
                     observed' of
                Inl e \<Rightarrow> Inl e
              | Inr weights \<Rightarrow>
                  (case map_err (\<lambda>(p, w). case divide_by kind w (sum_list (dict_values weights)) of
                                            Inl e \<Rightarrow> Inl e
                                          | Inr w' \<Rightarrow> Inr (p, w'))
                        weights of
                     Inl e \<Rightarrow> Inl e
                   | Inr weights' \<Rightarrow>
                       Inr (foldl (\<lambda>es (p, w).
                                     AList.map_entry p
                                       (\<lambda>e. e\<lparr>spill := unaccounted_spill * w,
                                               demand := unaccounted_spill * w\<rparr>) es)
                              estimates weights'))
         else Inr estimates)"

subsection \<open>Class level\<close>

text \<open>
  The loop of \<open>estimate_class_level\<close> (lines 91-112) over \<open>probs.keys()\<close>, with the
  dictionary \<open>estimates\<close> as its state. A product that was never available and has
  bookings ends the call; a product with observed demand gets the solved mass balance,
  any other the zero entry. The host recapture handed on comes from the solver and is a
  numpy number.
\<close>

fun class_level_loop ::
  "real \<Rightarrow> real \<Rightarrow> ('k, real) dict \<Rightarrow> ('k, real) dict \<Rightarrow> 'k list \<Rightarrow> ('k, estimate) dict
     \<Rightarrow> failure + ('k, estimate) dict" where
  "class_level_loop total_odemand host_recapture observed availability [] estimates =
     Inr estimates"
| "class_level_loop total_odemand host_recapture observed availability (product # rest)
       estimates =
     (let odemand = dict_get observed product 0;
          avail = dict_get availability product 0
      in if avail = 0 \<and> odemand > 0 then Inl (Raise InvalidInputParameters)
         else if odemand \<noteq> 0 then
           (case demand_mass_balance_c NumpyFloat total_odemand odemand avail host_recapture of
              Inl e \<Rightarrow> Inl e
            | Inr (d, s, r) \<Rightarrow>
                class_level_loop total_odemand host_recapture observed availability rest
                  (AList.update product \<lparr>demand = d, spill = s, recapture = r\<rparr> estimates))
         else
           class_level_loop total_odemand host_recapture observed availability rest
             (AList.update product \<lparr>demand = 0, spill = 0, recapture = 0\<rparr> estimates))"

text \<open>\<open>estimate_class_level\<close> (lines 62-117): host level first, then the loop, then
  the calibration when asked for.\<close>

definition estimate_class_level ::
  "floats \<Rightarrow> ('k, real) dict \<Rightarrow> ('k, real) dict \<Rightarrow> ('k, real) dict \<Rightarrow> real \<Rightarrow> bool
     \<Rightarrow> failure + ('k, estimate) dict" where
  "estimate_class_level kind observed availability probs nofly_prob calibrate =
     (case estimate_host_level kind observed availability probs nofly_prob of
        Inl e \<Rightarrow> Inl e
      | Inr (_, host_spill, host_recapture) \<Rightarrow>
          (let total_odemand = sum_list (dict_values observed)
           in case class_level_loop total_odemand host_recapture observed availability
                     (dict_keys probs) [] of
                Inl e \<Rightarrow> Inl e
              | Inr estimates \<Rightarrow>
                  if calibrate
                  then calibrate_no_booking kind estimates observed availability probs host_spill
                  else Inr estimates))"

subsection \<open>Choice probabilities\<close>

text \<open>
  \<open>selection_probs\<close> (lines 171-197). With no utilities \<open>exp_sum\<close> is Python's \<open>0\<close>
  and the divisions are Python's; with utilities it is a numpy number, and so is all that
  is computed from it. An exponential, a sum or a product that overflows, or a division by
  zero, leaves \<open>inf\<close> or \<open>nan\<close> in what is returned. When only the last sum overflows,
  every quotient by it is \<open>0.0\<close>.
\<close>

definition selection_probs ::
  "('k, real) dict \<Rightarrow> real \<Rightarrow> failure + ('k, real) dict \<times> real" where
  "selection_probs utilities market_share =
     (let kind = (if utilities = [] then PyFloat else NumpyFloat)
      in case map_err (\<lambda>(p, u). case np_exp u of Inl e \<Rightarrow> Inl e | Inr x \<Rightarrow> Inr (p, x))
                utilities of
           Inl e \<Rightarrow> Inl e
         | Inr exps \<Rightarrow>
             (case np_float (sum_list (dict_values exps)) of
                Inl e \<Rightarrow> Inl e
              | Inr exp_sum \<Rightarrow>
                  (case np_float (exp_sum * (1 - market_share)) of
                     Inl e \<Rightarrow> Inl e
                   | Inr numerator \<Rightarrow>
                       (case divide_by kind numerator market_share of
                          Inl e \<Rightarrow> Inl e
                        | Inr ratio \<Rightarrow>
                            (case np_float ratio of
                               Inl e \<Rightarrow> Inl e
                             | Inr exp_nofly_utility \<Rightarrow>
                                 (let exp_sum' = exp_sum + exp_nofly_utility
                                  in if max_float < \<bar>exp_sum'\<bar>
                                     then Inr (map (\<lambda>(p, x). (p, 0)) exps, 0)
                                     else
                                       (case map_err (\<lambda>(p, x). case divide_by kind x exp_sum' of
                                                                  Inl e \<Rightarrow> Inl e
                                                                | Inr q \<Rightarrow> Inr (p, q))
                                               exps of
                                          Inl e \<Rightarrow> Inl e
                                        | Inr probs \<Rightarrow>
                                            (case divide_by kind exp_nofly_utility exp_sum' of
                                               Inl e \<Rightarrow> Inl e
                                             | Inr nofly_prob \<Rightarrow> Inr (probs, nofly_prob)))))))))"

subsection \<open>Calibration on objects\<close>

text \<open>
  The estimates handed to \<open>calibrate_no_booking\<close> are a dictionary whose values are
  dictionaries themselves: mutable objects that the caller still holds after the call. To
  say what the call does to them, the entries live in a store, a list of records addressed
  by position, and the dictionary maps a product to the address of its entry. A dictionary
  of a running program holds addresses of existing objects only (\<open>a < length st\<close>); the
  statements that read entries assume it.
\<close>

type_synonym ref = nat

type_synonym store = "estimate list"

text \<open>
  \<open>copy.deepcopy\<close> is Python's library function. As documented, it copies the items in
  order, makes a new object for each entry it meets for the first time and keeps a memo of
  the entries already copied, so that two keys sharing an entry share its copy. Keys and
  numbers are immutable and are not copied.
\<close>

fun deepcopy_items ::
  "store \<Rightarrow> (ref \<times> ref) list \<Rightarrow> ('k \<times> ref) list \<Rightarrow> store \<times> ('k \<times> ref) list" where
  "deepcopy_items st memo [] = (st, [])"
| "deepcopy_items st memo ((k, a) # items) =
     (case map_of memo a of
        Some a' \<Rightarrow>
          (case deepcopy_items st memo items of (st', items') \<Rightarrow> (st', (k, a') # items'))
      | None \<Rightarrow>
          (case deepcopy_items (st @ [st ! a]) ((a, length st) # memo) items of
             (st', items') \<Rightarrow> (st', (k, length st) # items')))"

definition deepcopy :: "store \<Rightarrow> ('k, ref) dict \<Rightarrow> store \<times> ('k, ref) dict" where
  "deepcopy st d = deepcopy_items st [] d"

text \<open>The dictionary of values that a dictionary of addresses stands for in a store.\<close>

definition entries :: "store \<Rightarrow> ('k, ref) dict \<Rightarrow> ('k, estimate) dict" where
  "entries st d = map (\<lambda>(k, a). (k, st ! a)) d"

text \<open>
  \<open>calibrate_no_booking\<close> (lines 120-168) once more, on the store. The name
  \<open>estimates\<close> is rebound to the copy, the sum and the keys are read from it, and the
  final loop writes \<open>'spill'\<close> and \<open>'demand'\<close> of the entry object that
  \<open>estimates[p]\<close> is (\<open>p\<close> is one of its keys, so the lookup finds it). The store is
  returned with the result, also when the call fails.
\<close>

definition calibrate_no_booking_store ::
  "floats \<Rightarrow> store \<Rightarrow> ('k, ref) dict \<Rightarrow> ('k, real) dict \<Rightarrow> ('k, real) dict \<Rightarrow> ('k, real) dict
     \<Rightarrow> real \<Rightarrow> store \<times> (failure + ('k, ref) dict)" where
  "calibrate_no_booking_store kind st estimates observed availability probs host_spill =
     (case deepcopy st estimates of
        (st1, estimates') \<Rightarrow>
          let class_spill = sum_list (map (\<lambda>a. spill (st1 ! a)) (dict_values estimates'));
              unaccounted_spill = host_spill - class_spill
          in if unaccounted_spill > 0 then
               let observed' = filter (\<lambda>k. dict_get observed k 0 = 0) (dict_keys estimates')
               in case map_err (\<lambda>p. case dict_item probs p of
                                       Inl e \<Rightarrow> Inl e
                                     | Inr pr \<Rightarrow> Inr (p, pr * (1 - dict_get availability p 0)))
                         observed' of
                    Inl e \<Rightarrow> (st1, Inl e)
                  | Inr weights \<Rightarrow>
                      (case map_err (\<lambda>(p, w). case divide_by kind w
                                                     (sum_list (dict_values weights)) of
                                                Inl e \<Rightarrow> Inl e
                                              | Inr w' \<Rightarrow> Inr (p, w'))
                            weights of
                         Inl e \<Rightarrow> (st1, Inl e)
                       | Inr weights' \<Rightarrow>
                           (foldl (\<lambda>s (p, w).
                                     case map_of estimates' p of
                                       None \<Rightarrow> s
                                     | Some a \<Rightarrow>
                                         s[a := (s ! a)\<lparr>spill := unaccounted_spill * w,
                                                        demand := unaccounted_spill * w\<rparr>])
                              st1 weights',
                            Inr estimates'))
             else (st1, Inr estimates'))"

section \<open>Properties\<close>

subsection \<open>The solver on the two systems of the module\<close>

lemma det2: "det [[a, b], [c, d]] = a * d - b * c"
  by (simp add: del_col_def algebra_simps)

lemma det3: "det [[a, b, c], [d, e, f], [g, h, i]] =
   a * (e * i - f * h) - b * (d * i - f * g) + c * (d * h - e * g)"
  by (simp add: del_col_def algebra_simps)

lemma upt_0_2: "[0..<2] = [0, 1]"
  by (simp add: upt_rec)

lemma upt_0_3: "[0..<3] = [0, 1, 2]"
  by (simp add: upt_rec)

text \<open>What the solver returns solves the system, for every 2x2 and every 3x3 system.\<close>

lemma solve_2x2:
  assumes "solve [[a11, a12], [a21, a22]] [b1, b2] = Inr x"
  shows "\<exists>x1 x2. x = [x1, x2] \<and> a11 * x1 + a12 * x2 = b1 \<and> a21 * x1 + a22 * x2 = b2"
proof -
  define D where "D = det [[a11, a12], [a21, a22]]"
  define D1 where "D1 = det [[b1, a12], [b2, a22]]"
  define D2 where "D2 = det [[a11, b1], [a21, b2]]"
  have n: "length [[a11, a12], [a21, a22]] = 2" by simp
  from assms have nz: "D \<noteq> 0" and x: "x = [D1 / D, D2 / D]"
    unfolding solve_def n upt_0_2 D_def [symmetric]
    by (auto simp: replace_col_def D1_def D2_def simp del: det.simps split: if_splits)
  have "a11 * D1 + a12 * D2 = b1 * D"
    unfolding D_def D1_def D2_def det2 by (simp add: algebra_simps)
  then have "(a11 * D1 + a12 * D2) / D = b1" using nz by simp
  then have r1: "a11 * (D1 / D) + a12 * (D2 / D) = b1"
    by (simp add: add_divide_distrib)
  have "a21 * D1 + a22 * D2 = b2 * D"
    unfolding D_def D1_def D2_def det2 by (simp add: algebra_simps)
  then have "(a21 * D1 + a22 * D2) / D = b2" using nz by simp
  then have r2: "a21 * (D1 / D) + a22 * (D2 / D) = b2"
    by (simp add: add_divide_distrib)
  from x r1 r2 show ?thesis by simp
qed

lemma solve_3x3:
  assumes "solve [[a11, a12, a13], [a21, a22, a23], [a31, a32, a33]] [b1, b2, b3] = Inr x"
  shows "\<exists>x1 x2 x3. x = [x1, x2, x3]
           \<and> a11 * x1 + a12 * x2 + a13 * x3 = b1
           \<and> a21 * x1 + a22 * x2 + a23 * x3 = b2
           \<and> a31 * x1 + a32 * x2 + a33 * x3 = b3"
proof -
  define D where "D = det [[a11, a12, a13], [a21, a22, a23], [a31, a32, a33]]"
  define D1 where "D1 = det [[b1, a12, a13], [b2, a22, a23], [b3, a32, a33]]"
  define D2 where "D2 = det [[a11, b1, a13], [a21, b2, a23], [a31, b3, a33]]"
  define D3 where "D3 = det [[a11, a12, b1], [a21, a22, b2], [a31, a32, b3]]"
  have n: "length [[a11, a12, a13], [a21, a22, a23], [a31, a32, a33]] = 3" by simp
  from assms have nz: "D \<noteq> 0" and x: "x = [D1 / D, D2 / D, D3 / D]"
    unfolding solve_def n upt_0_3 D_def [symmetric]
    by (auto simp: replace_col_def D1_def D2_def D3_def simp del: det.simps split: if_splits)
  have "a11 * D1 + a12 * D2 + a13 * D3 = b1 * D"
    unfolding D_def D1_def D2_def D3_def det3 by (simp add: algebra_simps)
  then have "(a11 * D1 + a12 * D2 + a13 * D3) / D = b1" using nz by simp
  then have r1: "a11 * (D1 / D) + a12 * (D2 / D) + a13 * (D3 / D) = b1"
    by (simp add: add_divide_distrib)
  have "a21 * D1 + a22 * D2 + a23 * D3 = b2 * D"
    unfolding D_def D1_def D2_def D3_def det3 by (simp add: algebra_simps)
  then have "(a21 * D1 + a22 * D2 + a23 * D3) / D = b2" using nz by simp
  then have r2: "a21 * (D1 / D) + a22 * (D2 / D) + a23 * (D3 / D) = b2"
    by (simp add: add_divide_distrib)
  have "a31 * D1 + a32 * D2 + a33 * D3 = b3 * D"
    unfolding D_def D1_def D2_def D3_def det3 by (simp add: algebra_simps)
  then have "(a31 * D1 + a32 * D2 + a33 * D3) / D = b3" using nz by simp
  then have r3: "a31 * (D1 / D) + a32 * (D2 / D) + a33 * (D3 / D) = b3"
    by (simp add: add_divide_distrib)
  from x r1 r2 r3 show ?thesis by simp
qed

text \<open>
  The two systems of the module: their determinants, and what the solver returns, in
  closed form.
\<close>

lemma det_host: "det [[1, - 1, 1], [- c, 1, 0], [0, - r, 1]] = 1 - c + c * r"
  by (simp add: det3 del: det.simps)

lemma det_class: "det [[1, - 1], [- k, 1]] = 1 - k"
  by (simp add: det2 del: det.simps)

lemma solve_host:
  "solve [[1, - 1, 1], [- c, 1, 0], [0, - r, 1]] [od, 0, 0] =
     (if 1 - c + c * r = 0 then Inl (Raise LinAlgError)
      else Inr [od / (1 - c + c * r), c * od / (1 - c + c * r), r * c * od / (1 - c + c * r)])"
proof -
  have n: "length [[1, - 1, 1], [- c, 1, 0], [0, - r, 1::real]] = 3"
    by simp
  show ?thesis
    unfolding solve_def det_host n upt_0_3
    by (simp add: replace_col_def det3 del: det.simps)
qed

lemma solve_class:
  "solve [[1, - 1], [- k, 1]] [b, 0] =
     (if 1 - k = 0 then Inl (Raise LinAlgError) else Inr [b / (1 - k), k * b / (1 - k)])"
proof -
  have n: "length [[1, - 1], [- k, 1::real]] = 2"
    by simp
  show ?thesis
    unfolding solve_def det_class n upt_0_2
    by (simp add: replace_col_def det2 del: det.simps)
qed

lemma demand_mass_balance_h_eq:
  "demand_mass_balance_h od c r =
     (if 1 - c + c * r = 0 then Inl (Raise LinAlgError)
      else Inr (od / (1 - c + c * r), c * od / (1 - c + c * r), r * c * od / (1 - c + c * r)))"
  by (simp add: demand_mass_balance_h_def solve_host)

lemma fl_near_one_eq_1: "fl_near_one x = 1 \<longleftrightarrow> rounds_to_one x"
  by (auto simp: fl_near_one_def rounds_to_one_def)

lemma fl_near_one_exact: "\<not> rounds_to_one x \<Longrightarrow> fl_near_one x = x"
  by (simp add: fl_near_one_def)

lemma rounds_to_one_zero_avail: "rounds_to_one (1 - 0)"
  by (simp add: rounds_to_one_def)

lemma demand_mass_balance_c_eq:
  "demand_mass_balance_c kind h c a hr =
     (if c = 0 then Inr (0, 0, 0)
      else if h = 0 then
        (case kind of PyFloat \<Rightarrow> Inl (Raise ZeroDivisionError)
                    | NumpyFloat \<Rightarrow> Inl (Raise ValueError))
      else if rounds_to_one (1 - a) then Inl (Raise LinAlgError)
      else Inr ((c - hr * c / h) / a, (1 - a) * (c - hr * c / h) / a, hr * c / h))"
proof (cases "rounds_to_one (1 - a)")
  case True
  then have "fl_near_one (1 - a) = 1" by (simp add: fl_near_one_def)
  then show ?thesis using True
    by (simp add: demand_mass_balance_c_def solve_class Let_def)
next
  case False
  then have "fl_near_one (1 - a) = 1 - a" by (rule fl_near_one_exact)
  moreover from False have "a \<noteq> 0" by (auto simp: rounds_to_one_def)
  ultimately show ?thesis using False
    by (simp add: demand_mass_balance_c_def solve_class Let_def)
qed

subsection \<open>Host-level mass balance\<close>

text \<open>
  C1. For every \<open>odemand\<close>, \<open>close_prob\<close> and \<open>recapture_rate\<close> for which the 3x3
  system is solvable, that is for which its determinant
  \<open>1 - close_prob + close_prob * recapture_rate\<close> is not zero, \<open>demand_mass_balance_h\<close>
  returns a triple (demand, spill, recapture), and the triple satisfies
  \<open>demand - spill + recapture = odemand\<close>, \<open>spill = close_prob * demand\<close> and
  \<open>recapture = recapture_rate * spill\<close>. In exact arithmetic the three equations hold
  with no tolerance.
\<close>

theorem demand_mass_balance_h_balance:
  assumes "1 - close_prob + close_prob * recapture_rate \<noteq> 0"
  shows "\<exists>d s r. demand_mass_balance_h odemand close_prob recapture_rate = Inr (d, s, r)
           \<and> d - s + r = odemand \<and> s = close_prob * d \<and> r = recapture_rate * s"
proof -
  from assms obtain d s r where
    ret: "demand_mass_balance_h odemand close_prob recapture_rate = Inr (d, s, r)"
    by (simp add: demand_mass_balance_h_eq)
  then have
    "solve [[1, - 1, 1], [- close_prob, 1, 0], [0, - recapture_rate, 1]] [odemand, 0, 0]
       = Inr [d, s, r]"
    by (auto simp: demand_mass_balance_h_def Let_def split: sum.splits list.splits)
  from solve_3x3 [OF this] obtain x1 x2 x3 where "[d, s, r] = [x1, x2, x3]"
    and "1 * x1 + - 1 * x2 + 1 * x3 = odemand" and "- close_prob * x1 + 1 * x2 + 0 * x3 = 0"
    and "0 * x1 + - recapture_rate * x2 + 1 * x3 = 0"
    by blast
  then have "1 * d + - 1 * s + 1 * r = odemand" and "- close_prob * d + 1 * s + 0 * r = 0"
    and "0 * d + - recapture_rate * s + 1 * r = 0"
    by simp_all
  then have "d - s + r = odemand" and "s = close_prob * d" and "r = recapture_rate * s"
    by linarith+
  with ret show ?thesis by blast
qed

theorem demand_mass_balance_h_balance_witness:
  "(1 - 1 / 4 + 1 / 4 * (3 / 7) \<noteq> (0::real))
   \<and> demand_mass_balance_h 200 (1 / 4) (3 / 7) = Inr (700 / 3, 175 / 3, 25)
   \<and> (\<exists>d s r. demand_mass_balance_h 200 (1 / 4) (3 / 7) = Inr (d, s, r)
         \<and> d - s + r = 200 \<and> s = 1 / 4 * d \<and> r = 3 / 7 * s)"
proof -
  have h: "1 - 1 / 4 + 1 / 4 * (3 / 7) \<noteq> (0::real)" by simp
  have e: "demand_mass_balance_h 200 (1 / 4) (3 / 7) = Inr (700 / 3, 175 / 3, 25)"
    by (simp add: demand_mass_balance_h_eq)
  from demand_mass_balance_h_balance [OF h, of 200] h e show ?thesis by blast
qed

text \<open>The system is solvable in no other case: with a zero determinant the solver raises.\<close>

lemma demand_mass_balance_h_singular:
  "1 - close_prob + close_prob * recapture_rate = 0
     \<Longrightarrow> demand_mass_balance_h odemand close_prob recapture_rate = Inl (Raise LinAlgError)"
  by (simp add: demand_mass_balance_h_eq)

subsection \<open>The loop over the products\<close>




lemma class_level_loop_keys:
  "class_level_loop t hr obs av ks acc = Inr ests
     \<Longrightarrow> fst ` set ests = set ks \<union> fst ` set acc"
proof (induction ks arbitrary: acc)
  case Nil
  then show ?case by simp
next
  case (Cons k ks)
  from Cons.prems obtain e where "class_level_loop t hr obs av ks (AList.update k e acc) = Inr ests"
    by (auto simp: Let_def split: if_splits sum.splits)
  from Cons.IH [OF this] show ?case
    by (auto simp: dom_update)
qed

lemma class_level_loop_distinct:
  "class_level_loop t hr obs av ks acc = Inr ests \<Longrightarrow> distinct (map fst acc)
     \<Longrightarrow> distinct (map fst ests)"
proof (induction ks arbitrary: acc)
  case Nil
  then show ?case by simp
next
  case (Cons k ks)
  from Cons.prems obtain e where "class_level_loop t hr obs av ks (AList.update k e acc) = Inr ests"
    by (auto simp: Let_def split: if_splits sum.splits)
  from Cons.IH [OF this] Cons.prems(2) show ?case
    by (simp add: distinct_update)
qed


subsection \<open>Comprehensions and the write-back loop of the calibration\<close>


lemma map_err_weights_total:
  "set xs \<subseteq> dom (map_of pr)
     \<Longrightarrow> map_err (\<lambda>p. case dict_item pr p of Inl e \<Rightarrow> Inl e | Inr q \<Rightarrow> Inr (p, g p q)) xs
         = Inr (map (\<lambda>p. (p, g p (the (map_of pr p)))) xs)"
  by (induction xs) (auto simp: dict_item_def)

lemma map_err_weights_missing:
  "\<not> set xs \<subseteq> dom (map_of pr)
     \<Longrightarrow> map_err (\<lambda>p. case dict_item pr p of Inl e \<Rightarrow> Inl e | Inr q \<Rightarrow> Inr (p, g p q)) xs
         = Inl (Raise KeyError)"
proof (induction xs)
  case Nil
  then show ?case by simp
next
  case (Cons x xs)
  show ?case
  proof (cases "map_of pr x")
    case None
    then show ?thesis by (simp add: dict_item_def)
  next
    case (Some q)
    with Cons.prems have "\<not> set xs \<subseteq> dom (map_of pr)" by auto
    from Cons.IH [OF this] Some show ?thesis by (simp add: dict_item_def)
  qed
qed

lemma map_err_normalise:
  "map_err (\<lambda>(p, w). case divide_by kind w W of Inl e \<Rightarrow> Inl e | Inr w' \<Rightarrow> Inr (p, w')) ws =
     (if ws \<noteq> [] \<and> W = 0
      then Inl (case kind of PyFloat \<Rightarrow> Raise ZeroDivisionError | NumpyFloat \<Rightarrow> NonFinite)
      else Inr (map (\<lambda>(p, w). (p, w / W)) ws))"
proof (cases "W = 0")
  case True
  then show ?thesis by (cases ws; cases kind) (auto simp: divide_by_def)
next
  case False
  then have "map_err (\<lambda>(p, w). case divide_by kind w W of Inl e \<Rightarrow> Inl e | Inr w' \<Rightarrow> Inr (p, w')) ws
      = Inr (map (\<lambda>(p, w). (p, w / W)) ws)"
    by (induction ws) (auto simp: divide_by_def)
  with False show ?thesis by simp
qed

lemma map_entry_as_map:
  "distinct (map fst es)
     \<Longrightarrow> AList.map_entry p h es = map (\<lambda>(k, e). if k = p then (k, h e) else (k, e)) es"
proof (induction es)
  case Nil
  then show ?case by simp
next
  case (Cons a es)
  obtain k e where a: "a = (k, e)" by (cases a)
  show ?case
  proof (cases "k = p")
    case True
    with Cons.prems a have "p \<notin> fst ` set es" by simp
    then have "map (\<lambda>(k, e). if k = p then (k, h e) else (k, e)) es = es"
      by (induction es) auto
    with True a show ?thesis by simp
  next
    case False
    with Cons a show ?thesis by simp
  qed
qed

lemma foldl_map_entry:
  "distinct (map fst es) \<Longrightarrow> distinct ks
     \<Longrightarrow> foldl (\<lambda>es (p, v). AList.map_entry p (F v) es) es (map (\<lambda>p. (p, g p)) ks)
         = map (\<lambda>(k, e). if k \<in> set ks then (k, F (g k) e) else (k, e)) es"
proof (induction ks arbitrary: es)
  case Nil
  then show ?case by simp
next
  case (Cons p ks)
  have d: "distinct (map fst (AList.map_entry p (F (g p)) es))"
    using Cons.prems(1) by (rule distinct_map_entry)
  from Cons.prems(2) have dk: "distinct ks" and pk: "p \<notin> set ks" by simp_all
  have "foldl (\<lambda>es (p, v). AList.map_entry p (F v) es) es (map (\<lambda>p. (p, g p)) (p # ks))
      = foldl (\<lambda>es (p, v). AList.map_entry p (F v) es) (AList.map_entry p (F (g p)) es)
          (map (\<lambda>p. (p, g p)) ks)"
    by simp
  also have "\<dots> = map (\<lambda>(k, e). if k \<in> set ks then (k, F (g k) e) else (k, e))
                     (AList.map_entry p (F (g p)) es)"
    by (rule Cons.IH [OF d dk])
  also have "\<dots> = map (\<lambda>(k, e). if k \<in> set (p # ks) then (k, F (g k) e) else (k, e)) es"
    using pk by (simp add: map_entry_as_map [OF Cons.prems(1)] case_prod_unfold) 
  finally show ?case .
qed


subsection \<open>What the calibration returns\<close>

text \<open>
  The calibration in closed form, on a dictionary of estimates: \<open>u\<close> is the unaccounted
  spill, \<open>Z\<close> the keys without observed bookings, \<open>w\<close> the weight of a product and \<open>W\<close>
  the sum of the weights.
\<close>

lemma calibrate_no_booking_eq:
  fixes es :: "('k, estimate) dict" and obs av pr :: "('k, real) dict" and hs :: real
  defines "u \<equiv> hs - sum_list (map spill (dict_values es))"
  defines "Z \<equiv> filter (\<lambda>k. dict_get obs k 0 = 0) (dict_keys es)"
  defines "w \<equiv> \<lambda>p. the (map_of pr p) * (1 - dict_get av p 0)"
  defines "W \<equiv> sum_list (map w Z)"
  assumes d: "distinct (map fst es)"
  shows "calibrate_no_booking kind es obs av pr hs =
     (if u \<le> 0 then Inr es
      else if \<not> set Z \<subseteq> dom (map_of pr) then Inl (Raise KeyError)
      else if Z \<noteq> [] \<and> W = 0
      then Inl (case kind of PyFloat \<Rightarrow> Raise ZeroDivisionError | NumpyFloat \<Rightarrow> NonFinite)
      else Inr (map (\<lambda>(k, e). if dict_get obs k 0 = 0
                              then (k, e\<lparr>spill := u * (w k / W), demand := u * (w k / W)\<rparr>)
                              else (k, e)) es))"
proof (cases "u \<le> 0")
  case True
  then show ?thesis by (simp add: calibrate_no_booking_def Let_def u_def)
next
  case pos: False
  define F where "F = (\<lambda>v (e :: estimate). e\<lparr>spill := u * v, demand := u * v\<rparr>)"
  define f where "f = (\<lambda>p. case dict_item pr p of
                               Inl e \<Rightarrow> Inl e
                             | Inr q \<Rightarrow> (Inr (p, q * (1 - dict_get av p 0)) :: failure + 'k \<times> real))"
  have unfold: "calibrate_no_booking kind es obs av pr hs =
      (case map_err f Z of
         Inl e \<Rightarrow> Inl e
       | Inr ws \<Rightarrow>
           (case map_err (\<lambda>(p, w). case divide_by kind w (sum_list (dict_values ws)) of
                                     Inl e \<Rightarrow> Inl e | Inr w' \<Rightarrow> Inr (p, w')) ws of
              Inl e \<Rightarrow> Inl e
            | Inr ws' \<Rightarrow> Inr (foldl (\<lambda>es (p, v). AList.map_entry p (F v) es) es ws')))"
    unfolding calibrate_no_booking_def Let_def f_def F_def Z_def u_def
    using pos by (simp add: u_def)
  show ?thesis
  proof (cases "set Z \<subseteq> dom (map_of pr)")
    case False
    from map_err_weights_missing [OF this] have "map_err f Z = Inl (Raise KeyError)"
      by (simp add: f_def)
    with pos False show ?thesis by (simp add: unfold)
  next
    case True
    from map_err_weights_total [OF this]
    have ws: "map_err f Z = Inr (map (\<lambda>p. (p, w p)) Z)"
      by (simp add: f_def w_def)
    have W: "sum_list (dict_values (map (\<lambda>p. (p, w p)) Z)) = W"
      by (simp add: W_def dict_values_def comp_def)
    show ?thesis
    proof (cases "Z \<noteq> [] \<and> W = 0")
      case True
      with pos \<open>set Z \<subseteq> dom (map_of pr)\<close> show ?thesis
        by (simp add: unfold ws W map_err_normalise)
    next
      case False
      have "foldl (\<lambda>es (p, v). AList.map_entry p (F v) es) es (map (\<lambda>p. (p, w p / W)) Z)
          = map (\<lambda>(k, e). if k \<in> set Z then (k, F (w k / W) e) else (k, e)) es"
        using d by (intro foldl_map_entry) (simp_all add: Z_def dict_keys_def distinct_map_filter)
      also have "\<dots> = map (\<lambda>(k, e). if dict_get obs k 0 = 0
                              then (k, e\<lparr>spill := u * (w k / W), demand := u * (w k / W)\<rparr>)
                              else (k, e)) es"
        by (rule map_cong) (force simp: Z_def dict_keys_def F_def)+
      finally have fold: "foldl (\<lambda>es (p, v). AList.map_entry p (F v) es) es
                            (map (\<lambda>p. (p, w p / W)) Z)
          = map (\<lambda>(k, e). if dict_get obs k 0 = 0
                              then (k, e\<lparr>spill := u * (w k / W), demand := u * (w k / W)\<rparr>)
                              else (k, e)) es" .
      have "map (\<lambda>(p, w). (p, w / W)) (map (\<lambda>p. (p, w p)) Z) = map (\<lambda>p. (p, w p / W)) Z"
        by (simp add: comp_def)
      with False pos \<open>set Z \<subseteq> dom (map_of pr)\<close> fold show ?thesis
        by (simp add: unfold ws W map_err_normalise comp_def)
    qed
  qed
qed

lemma calibrate_no_booking_nonpositive:
  "hs - sum_list (map spill (dict_values es)) \<le> 0
     \<Longrightarrow> calibrate_no_booking kind es obs av pr hs = Inr es"
  by (simp add: calibrate_no_booking_def Let_def)


subsection \<open>The host level in closed form\<close>

text \<open>
  With \<open>S\<close> the probability of selecting an open product of the host, the host-level
  system is singular exactly when \<open>S = 0\<close>, and otherwise the host's recapture is the
  observed demand times \<open>1 - nofly_prob - S\<close>.
\<close>

lemma estimate_host_level_eq:
  fixes pr av obs :: "('k, real) dict" and nf :: real
  defines "S \<equiv> sum_list (map (\<lambda>(p, q). q * dict_get av p 0) pr)"
  defines "T \<equiv> sum_list (dict_values obs)"
  assumes ne: "pr \<noteq> []"
  shows "estimate_host_level kind obs av pr nf =
     (if nf + S = 0 \<or> nf = 1
      then Inl (Raise (case kind of PyFloat \<Rightarrow> ZeroDivisionError | NumpyFloat \<Rightarrow> ValueError))
      else if S = 0 then Inl (Raise LinAlgError)
      else Inr (T * (1 - nf) * (nf + S) / S, T * (1 - nf - S) * (nf + S) / S,
                T * (1 - nf - S)))"
proof (cases "nf + S = 0 \<or> nf = 1")
  case True
  with ne show ?thesis
    by (cases kind) (auto simp: estimate_host_level_def Let_def S_def)
next
  case False
  then have m: "nf + S \<noteq> 0" and n: "1 - nf \<noteq> 0" by simp_all
  define c where "c = (1 - (nf + S)) / (1 - nf)"
  define r where "r = (nf + S - nf) / (nf + S)"
  have h: "estimate_host_level kind obs av pr nf = demand_mass_balance_h T c r"
    using ne False by (simp add: estimate_host_level_def Let_def S_def T_def c_def r_def)
  have c1: "c * (1 - nf) = 1 - (nf + S)" using n by (simp add: c_def)
  have r1: "r * (nf + S) = S" using m by (simp add: r_def)
  have "(1 - c + c * r) * ((1 - nf) * (nf + S))
      = (1 - nf) * (nf + S) - (c * (1 - nf)) * (nf + S) + (c * (1 - nf)) * (r * (nf + S))"
    by (simp add: algebra_simps)
  also have "\<dots> = (1 - nf) * (nf + S) - (1 - (nf + S)) * (nf + S) + (1 - (nf + S)) * S"
    unfolding c1 r1 ..
  also have "\<dots> = S" by (simp add: algebra_simps)
  finally have "(1 - c + c * r) * ((1 - nf) * (nf + S)) = S" .
  with m n have k: "1 - c + c * r = S / ((1 - nf) * (nf + S))"
    by (simp add: nonzero_eq_divide_eq)
  show ?thesis
  proof (cases "S = 0")
    case True
    with k have "1 - c + c * r = 0" by simp
    with True False show ?thesis by (simp add: h demand_mass_balance_h_eq)
  next
    case s: False
    with k m n have nz: "1 - c + c * r \<noteq> 0" by simp
    have d: "T / (1 - c + c * r) = T * (1 - nf) * (nf + S) / S"
      unfolding k by simp
    have "c * T / (1 - c + c * r) = T * (c * (1 - nf)) * (nf + S) / S"
      unfolding k by simp
    then have cd: "c * T / (1 - c + c * r) = T * (1 - nf - S) * (nf + S) / S"
      unfolding c1 by (simp add: algebra_simps)
    have "r * c * T / (1 - c + c * r) = T * (c * (1 - nf)) * (r * (nf + S)) / S"
      unfolding k by simp
    also have "\<dots> = T * (1 - (nf + S)) * S / S"
      unfolding c1 r1 ..
    also have "\<dots> = T * (1 - nf - S)"
      using s by simp
    finally have rd: "r * c * T / (1 - c + c * r) = T * (1 - nf - S)" .
    from nz s False show ?thesis
      by (simp add: h demand_mass_balance_h_eq d cd rd)
  qed
qed

lemma estimate_host_level_empty:
  "estimate_host_level kind obs av [] nf = Inr (0, 0, 0)"
  by (simp add: estimate_host_level_def)

subsection \<open>The class level\<close>







lemma calibrate_no_booking_returns:
  fixes es :: "('k, estimate) dict" and pr av obs :: "('k, real) dict"
  defines "Z \<equiv> filter (\<lambda>k. dict_get obs k 0 = 0) (dict_keys es)"
  assumes "distinct (map fst es)" and "set Z \<subseteq> dom (map_of pr)"
    and "Z = [] \<or> sum_list (map (\<lambda>p. the (map_of pr p) * (1 - dict_get av p 0)) Z) \<noteq> 0"
  shows "\<exists>es'. calibrate_no_booking kind es obs av pr hs = Inr es'"
  using assms(3,4) unfolding calibrate_no_booking_eq [OF assms(2)] Z_def by auto

subsection \<open>Class-level mass balance\<close>




subsection \<open>Products without observed demand\<close>






subsection \<open>The availability check\<close>

lemma all_closed_sum:
  "list_all (\<lambda>p. dict_get av p 0 = 0) (dict_keys pr)
     \<Longrightarrow> sum_list (map (\<lambda>(p, q). q * dict_get av p 0) pr) = (0 :: real)"
  by (induction pr) (auto simp: dict_keys_def)

text \<open>
  C3 does not hold of the code. The check of line 95 stands in the loop, and the loop
  comes after the host-level solve of line 84. When every product of \<open>probs\<close> was closed
  all the time, the probability of selecting an open product is zero and the host-level
  system is singular: the call ends with the solver's \<open>LinAlgError\<close>, whatever was
  observed, and so also when a product has bookings and no availability, where the spec
  wants \<open>InvalidInputParameters\<close>.
\<close>

theorem invalid_input_unreached:
  fixes observed availability probs :: "('k, real) dict" and nofly_prob :: real
  assumes "probs \<noteq> []"
    and "list_all (\<lambda>p. dict_get availability p 0 = 0) (dict_keys probs)"
    and "nofly_prob \<noteq> 0" and "nofly_prob \<noteq> 1"
  shows "estimate_class_level kind observed availability probs nofly_prob calibrate
           = Inl (Raise LinAlgError)"
proof -
  from all_closed_sum [OF assms(2)]
  have "sum_list (map (\<lambda>(p, q). q * dict_get availability p 0) probs) = 0" .
  with assms(3,4) have "estimate_host_level kind observed availability probs nofly_prob
      = Inl (Raise LinAlgError)"
    unfolding estimate_host_level_eq [OF assms(1)] by simp
  then show ?thesis by (simp add: estimate_class_level_def)
qed

theorem invalid_input_unreached_witness:
  "''A'' \<in> set (dict_keys [(''A'', 1 / 2 :: real)])
   \<and> dict_get [(''A'', 0 :: real)] ''A'' 0 = 0
   \<and> dict_get [(''A'', 10 :: real)] ''A'' 0 > 0
   \<and> (1 / 2 + sum_list (dict_values [(''A'', 1 / 2 :: real)]) = 1)
   \<and> estimate_class_level PyFloat [(''A'', 10)] [(''A'', 0)] [(''A'', 1 / 2)] (1 / 2) True
       = Inl (Raise LinAlgError)
   \<and> estimate_class_level NumpyFloat [(''A'', 10)] [(''A'', 0)] [(''A'', 1 / 2)] (1 / 2) True
       = Inl (Raise LinAlgError)
   \<and> estimate_class_level PyFloat [(''A'', 10)] [(''A'', 0)] [(''A'', 1 / 2)] (1 / 2) False
       = Inl (Raise LinAlgError)"
proof -
  have h: "[(''A'', 1 / 2 :: real)] \<noteq> []"
    "list_all (\<lambda>p. dict_get [(''A'', 0 :: real)] p 0 = 0) (dict_keys [(''A'', 1 / 2 :: real)])"
    "(1 / 2 :: real) \<noteq> 0" "(1 / 2 :: real) \<noteq> 1"
    by (simp_all add: dict_keys_def dict_get_def)
  from invalid_input_unreached [OF h, of PyFloat "[(''A'', 10)]" True]
    invalid_input_unreached [OF h, of NumpyFloat "[(''A'', 10)]" True]
    invalid_input_unreached [OF h, of PyFloat "[(''A'', 10)]" False]
  show ?thesis by (simp add: dict_keys_def dict_get_def dict_values_def)
qed

text \<open>
  The error-path scenario of the spec, \<open>observed = {A: 10}\<close>, \<open>availability = {A: 0}\<close>,
  \<open>probs = {A: 0.3}\<close>, \<open>nofly_prob = 0.5\<close>, is such an input.
\<close>

lemma invalid_input_scenario:
  "estimate_class_level kind [(''A'', 10)] [(''A'', 0)] [(''A'', 3 / 10)] (1 / 2) calibrate
     = Inl (Raise LinAlgError)"
  by (simp add: estimate_class_level_def estimate_host_level_def dict_get_def dict_values_def
      demand_mass_balance_h_eq)

text \<open>
  The loop runs over the keys of \<open>probs\<close>, so a product that appears in \<open>observed\<close>
  only is not checked either: here \<open>A\<close> has 10 bookings and no availability, and the call
  returns the estimate of \<open>B\<close>.
\<close>

lemma invalid_input_unchecked:
  "estimate_class_level kind [(''A'', 10), (''B'', 5)] [(''A'', 0), (''B'', 4 / 5)]
       [(''B'', 1 / 2)] (1 / 2) True
     = Inr [(''B'', \<lparr>demand = 45 / 8, spill = 9 / 8, recapture = 1 / 2\<rparr>)]"
  by (simp add: estimate_class_level_def estimate_host_level_def dict_get_def dict_values_def
      dict_keys_def demand_mass_balance_h_eq demand_mass_balance_c_eq rounds_to_one_def
      calibrate_no_booking_def)

text \<open>
  Where the host level is solvable, the check is what the spec says: the first product of
  \<open>probs\<close> with bookings and no availability ends the call.
\<close>

lemma invalid_input_first:
  "estimate_class_level kind [(''A'', 10), (''B'', 5)] [(''A'', 0), (''B'', 4 / 5)]
       [(''A'', 3 / 10), (''B'', 1 / 5)] (1 / 2) calibrate
     = Inl (Raise InvalidInputParameters)"
  by (simp add: estimate_class_level_def estimate_host_level_def dict_get_def dict_values_def
      dict_keys_def demand_mass_balance_h_eq)

subsection \<open>Estimated against observed demand\<close>







end
